theory Spec2Isabelle
  imports Complex_Main
begin

section \<open>notify.py: a shallow embedding\<close>

text \<open>
  The program is a chat bot that watches the GPUs of one machine. Its Python functions are
  embedded as HOL functions over explicit state:
  \<^item> the attributes of \<open>NotifyBot\<close> that the handlers read and write form the record \<open>bot\<close>;
  \<^item> everything a function does to the outside (replies, prints, sent messages, device
    selection and reset, sleeping) is returned as a list of \<open>event\<close>s, in program order;
  \<^item> everything a function reads from the outside (device count, memory figures, process
    lists, the allocator's and the transport's answers, the clock) is a parameter;
  \<^item> an exception is a value of \<open>py_error\<close>; a function that can raise after it has
    changed the state returns an \<open>outcome\<close> together with the state it leaves behind.

  Python strings are modelled as \<open>string\<close> holding the UTF-8 bytes of the text. The program
  only concatenates and compares strings, and UTF-8 encoding preserves both.
\<close>

subsection \<open>Exceptions and effects\<close>

datatype py_error =
    ValueError
  | ZeroDivisionError
  | Unauthorized
  | NetworkError
  | CudaAPIError
  | NVMLError
  | NoSuchProcess

datatype outcome = Returned | Raised py_error

datatype event =
    Reply string
  | Printed string
  | SelectDevice int
  | ResetDevice int
  | Allocate int int
  | Sleep int
  | SendMessage int string bool

subsection \<open>Numbers and text\<close>

text \<open>
  \<open>str(n)\<close> for an integer, as the f-strings and \<open>print\<close> render it.
\<close>

fun string_of_nat :: "nat \<Rightarrow> string" where
  "string_of_nat n =
     (if n < 10 then [char_of (48 + n)]
      else string_of_nat (n div 10) @ [char_of (48 + n mod 10)])"

declare string_of_nat.simps [simp del]

definition string_of_int :: "int \<Rightarrow> string" where
  "string_of_int i = (if i < 0 then CHR ''-'' # string_of_nat (nat (- i)) else string_of_nat (nat i))"

text \<open>
  \<open>int(s)\<close> on a command token. Python accepts an optional sign followed by decimal digits,
  where single underscores may separate digits, and raises \<open>ValueError\<close> (here \<open>None\<close>)
  otherwise. Tokens come from \<open>str.split\<close>, so they hold no whitespace. The model covers
  the ASCII digits; Python also reads the decimal digits of other scripts.
\<close>

definition is_digit :: "char \<Rightarrow> bool" where
  "is_digit c = (48 \<le> (of_char c :: nat) \<and> (of_char c :: nat) \<le> 57)"

definition digit_val :: "char \<Rightarrow> nat" where
  "digit_val c = of_char c - 48"

fun parse_digits :: "nat \<Rightarrow> bool \<Rightarrow> string \<Rightarrow> nat option" where
  "parse_digits acc after_digit [] = (if after_digit then Some acc else None)"
| "parse_digits acc after_digit (c # cs) =
     (if is_digit c then parse_digits (acc * 10 + digit_val c) True cs
      else if c = CHR ''_'' \<and> after_digit then parse_digits acc False cs
      else None)"

fun py_int :: "string \<Rightarrow> int option" where
  "py_int [] = None"
| "py_int (c # cs) =
     (if c = CHR ''-'' then map_option (\<lambda>n. - int n) (parse_digits 0 False cs)
      else if c = CHR ''+'' then map_option int (parse_digits 0 False cs)
      else map_option int (parse_digits 0 False (c # cs)))"

text \<open>
  \<open>round(x)\<close> of Python 3 rounds to the nearest integer and a tie to the even neighbour.
  \<open>int(x)\<close> truncates towards zero.

  The program computes with binary64 floats. The model computes the same expressions in
  exact rational arithmetic. The two agree wherever the float operations are exact, which
  is so at every concrete input evaluated in this theory, and in the threshold test of
  \<open>query_once\<close>: division of an integer by \<open>2 ^ 30\<close> is correctly rounded and rounding is
  monotone, so the float quotient exceeds \<open>1\<close> exactly when the rational one does.
\<close>

definition py_round :: "rat \<Rightarrow> int" where
  "py_round x =
     (let f = \<lfloor>x\<rfloor>; d = x - of_int f
      in if d < 1 / 2 then f
         else if 1 / 2 < d then f + 1
         else if even f then f else f + 1)"

definition py_trunc :: "rat \<Rightarrow> int" where
  "py_trunc x = (if 0 \<le> x then \<lfloor>x\<rfloor> else \<lceil>x\<rceil>)"

subsection \<open>The usage bar\<close>

text \<open>
  \<open>pbar(current, maximum, size)\<close>. The first loop runs \<open>sep + 1\<close> times, the second over
  \<open>range(sep + 1, size)\<close>; a range whose end is not above its start is empty. Division by a
  zero \<open>maximum\<close> raises. The parameter \<open>size\<close> is written \<open>sz\<close>.
\<close>

definition pbar :: "int \<Rightarrow> int \<Rightarrow> int \<Rightarrow> py_error + string" where
  "pbar current maximum sz =
     (if maximum = 0 then Inl ZeroDivisionError
      else
        let sep = py_round (of_int current / of_int maximum * of_int sz)
        in Inr ([CHR 0x60, CHR ''|'']
                @ replicate (nat (sep + 1)) CHR ''#''
                @ replicate (nat (sz - (sep + 1))) CHR '' ''
                @ [CHR ''|'', CHR 0x60]))"

text \<open>The number of filled segments of a rendered bar.\<close>

definition filled :: "string \<Rightarrow> nat" where
  "filled bar = length (filter (\<lambda>c. c = CHR ''#'') bar)"

definition pbar_filled :: "int \<Rightarrow> int \<Rightarrow> int \<Rightarrow> nat option" where
  "pbar_filled current maximum sz =
     (case pbar current maximum sz of Inl _ \<Rightarrow> None | Inr bar \<Rightarrow> Some (filled bar))"

subsection \<open>Occupancy labels\<close>

text \<open>The emoji of the source, as their UTF-8 bytes.\<close>

definition snake :: string where "snake = [CHR 0xF0, CHR 0x9F, CHR 0x90, CHR 0x8D]"
definition poo :: string where "poo = [CHR 0xF0, CHR 0x9F, CHR 0x92, CHR 0xA9]"
definition bee :: string where "bee = [CHR 0xF0, CHR 0x9F, CHR 0x90, CHR 0x9D]"
definition ferris_wheel :: string where "ferris_wheel = [CHR 0xF0, CHR 0x9F, CHR 0x8E, CHR 0xA1]"
definition evergreen :: string where "evergreen = [CHR 0xF0, CHR 0x9F, CHR 0x8C, CHR 0xB2]"
definition fishing_pole :: string where "fishing_pole = [CHR 0xF0, CHR 0x9F, CHR 0x8E, CHR 0xA3]"
definition money_wings :: string where "money_wings = [CHR 0xF0, CHR 0x9F, CHR 0x92, CHR 0xB8]"
definition clown :: string where "clown = [CHR 0xF0, CHR 0x9F, CHR 0xA4, CHR 0xA1]"
definition rocket :: string where "rocket = [CHR 0xF0, CHR 0x9F, CHR 0x9A, CHR 0x80]"

text \<open>\<open>sep.join(xs)\<close>.\<close>

fun join :: "string \<Rightarrow> string list \<Rightarrow> string" where
  "join sep [] = []"
| "join sep [x] = x"
| "join sep (x # y # ys) = x @ sep @ join sep (y # ys)"

text \<open>
  What \<open>pynvml\<close> and \<open>psutil\<close> answer for one device handle during one query:
  \<open>nvmlDeviceGetMemoryInfo(handle)\<close> and \<open>get_user_info(handle)\<close>, the latter a list of
  (user name, command line). Either call can raise.
\<close>

record nvml_memory =
  total_mem :: int
  free_mem :: int
  used_mem :: int

record handle =
  nvmlDeviceGetMemoryInfo :: "py_error + nvml_memory"
  get_user_info :: "py_error + (string \<times> string) list"

text \<open>The \<open>if\<close>/\<open>elif\<close> chain in the loop over \<open>users\<close> of \<open>_query_once\<close>.\<close>

definition decorate :: "string \<Rightarrow> string" where
  "decorate user =
     (if user = ''chunqiu2'' then user @ snake
      else if user = ''ywei40'' then user @ poo
      else if user = ''yifeng6'' then user @ bee
      else if user = ''shizhuo2'' then user @ ferris_wheel
      else if user = ''yinlind2'' then user @ evergreen
      else if user = ''cy54'' then user @ fishing_pole
      else user @ money_wings)"

definition available_label :: string where
  "available_label = rocket @ ''AVAILABLE''"

definition occupied_label :: "string list \<Rightarrow> string" where
  "occupied_label users = clown @ ''OCCUPIED by '' @ join '', '' users"

text \<open>
  The body of the loop over \<open>handles\<close> in \<open>_query_once\<close>: the state of one device.
  \<open>get_user_info\<close> is called in the branch above the threshold only.
\<close>

definition device_state :: "handle \<Rightarrow> py_error + string" where
  "device_state h =
     (case nvmlDeviceGetMemoryInfo h of
        Inl e \<Rightarrow> Inl e
      | Inr info \<Rightarrow>
          let used_gb = (of_int (used_mem info) :: rat) / 1024 ^ 3;
              thresh_gb = 1
          in if used_gb > thresh_gb then
               (case get_user_info h of
                  Inl e \<Rightarrow> Inl e
                | Inr infos \<Rightarrow> Inr (occupied_label (map (\<lambda>info. decorate (fst info)) infos)))
             else Inr available_label)"

fun query_states :: "handle list \<Rightarrow> py_error + string list" where
  "query_states [] = Inr []"
| "query_states (h # hs) =
     (case device_state h of
        Inl e \<Rightarrow> Inl e
      | Inr st \<Rightarrow>
          (case query_states hs of
             Inl e \<Rightarrow> Inl e
           | Inr sts \<Rightarrow> Inr (st # sts)))"

fun bullets :: "nat \<Rightarrow> string list \<Rightarrow> string" where
  "bullets i [] = []"
| "bullets i (st # sts) =
     ''* GPU #'' @ string_of_nat i @ '': '' @ st @ [CHR 0x0A] @ bullets (Suc i) sts"

text \<open>
  \<open>_query_once(handles)\<close>; \<open>now\<close> is what \<open>time.strftime\<close> returns.
\<close>

definition query_once :: "string \<Rightarrow> handle list \<Rightarrow> py_error + (string list \<times> string)" where
  "query_once now hs =
     (case query_states hs of
        Inl e \<Rightarrow> Inl e
      | Inr new_states \<Rightarrow>
          Inr (new_states, ''# New GPU Status at '' @ now @ [CHR 0x0A] @ bullets 0 new_states))"

text \<open>Whether a label is the one of an occupied device.\<close>

definition is_occupied :: "string \<Rightarrow> bool" where
  "is_occupied st = (take (length (clown @ ''OCCUPIED'')) st = clown @ ''OCCUPIED'')"

subsection \<open>The bot and the poll loop\<close>

datatype device_array = DeviceArray int

text \<open>
  The attributes of \<open>NotifyBot\<close>. The whitelist is the list of chat ids of \<open>config.json\<close>;
  \<open>cuda_buffers\<close> maps a device id to the array held on it. The attribute \<open>_last_thresh\<close>
  is never used and is left out.
\<close>

record bot =
  whitelist :: "int list"
  cuda_buffers :: "int \<rightharpoonup> device_array"
  interval :: int

definition init_bot :: "int list \<Rightarrow> bot" where
  "init_bot wl = \<lparr>whitelist = wl, cuda_buffers = Map.empty, interval = 5\<rparr>"

text \<open>
  The loop over the whitelist, which \<open>_poll_gpu\<close> contains twice (with and without
  \<open>parse_mode\<close>). \<open>send\<close> is the answer of \<open>send_message\<close>: \<open>None\<close> when it returns, the
  exception otherwise. Only \<open>telegram.error.Unauthorized\<close> is caught.
\<close>

fun broadcast :: "(int \<Rightarrow> string \<Rightarrow> bool \<Rightarrow> py_error option) \<Rightarrow> bool \<Rightarrow> string \<Rightarrow> int list
    \<Rightarrow> outcome \<times> event list" where
  "broadcast send markdown msg [] = (Returned, [])"
| "broadcast send markdown msg (chat_id # rest) =
     (case send chat_id msg markdown of
        None \<Rightarrow>
          (let (out, evs) = broadcast send markdown msg rest
           in (out, SendMessage chat_id msg markdown # evs))
      | Some e \<Rightarrow>
          if e = Unauthorized then
            (let (out, evs) = broadcast send markdown msg rest
             in (out, SendMessage chat_id msg markdown
                      # Printed (''Unauthorized for '' @ string_of_int chat_id) # evs))
          else (Raised e, [SendMessage chat_id msg markdown]))"

text \<open>
  What one turn of the \<open>while True\<close> loop of \<open>_poll_gpu\<close> finds outside: the clock, the
  handles (their lookup is outside the \<open>try\<close>), the text of the traceback and the
  transport.
\<close>

record poll_env =
  now :: string
  handles :: "py_error + handle list"
  format_exc :: "py_error \<Rightarrow> string"
  send_message :: "int \<Rightarrow> string \<Rightarrow> bool \<Rightarrow> py_error option"

text \<open>
  One turn of the loop, from \<open>time.sleep\<close> to the end of the body. The result holds whether
  the loop goes on (\<open>Returned\<close>) or an exception leaves it, the value of \<open>old_states\<close>
  afterwards and the events. The initial \<open>old_states\<close> is a list of \<open>None\<close>, so its elements
  are \<open>string option\<close>.
\<close>

definition poll_cycle :: "bot \<Rightarrow> poll_env \<Rightarrow> string option list
    \<Rightarrow> outcome \<times> string option list \<times> event list" where
  "poll_cycle s env old_states =
     (case handles env of
        Inl e \<Rightarrow> (Raised e, old_states, [Sleep (interval s)])
      | Inr hs \<Rightarrow>
          (case query_once (now env) hs of
             Inl e \<Rightarrow>
               (let msg = format_exc env e;
                    (out, evs) = broadcast (send_message env) False msg (whitelist s)
                in (out, old_states, Sleep (interval s) # Printed msg # evs))
           | Inr (new_states, msg) \<Rightarrow>
               if map Some new_states \<noteq> old_states then
                 (case broadcast (send_message env) True msg (whitelist s) of
                    (Returned, evs) \<Rightarrow> (Returned, map Some new_states, Sleep (interval s) # evs)
                  | (Raised e, evs) \<Rightarrow> (Raised e, old_states, Sleep (interval s) # evs))
               else (Returned, old_states, [Sleep (interval s)])))"

text \<open>
  \<open>_poll_gpu\<close> over a finite run of turns: the loop itself never returns, so the list of
  what each turn finds is the fuel, and \<open>Returned\<close> says that the loop is still running
  after the last of them. The bot is given per turn, since a command may change the
  interval between two turns. \<open>count\<close> is \<open>nvmlDeviceGetCount()\<close> before the loop.
\<close>

fun poll_loop :: "(bot \<times> poll_env) list \<Rightarrow> string option list
    \<Rightarrow> outcome \<times> string option list \<times> event list" where
  "poll_loop [] old_states = (Returned, old_states, [])"
| "poll_loop ((s, env) # turns) old_states =
     (case poll_cycle s env old_states of
        (Raised e, old_states', evs) \<Rightarrow> (Raised e, old_states', evs)
      | (Returned, old_states', evs) \<Rightarrow>
          (let (out, old_states'', evs') = poll_loop turns old_states'
           in (out, old_states'', evs @ evs')))"

definition poll_gpu :: "nat \<Rightarrow> (bot \<times> poll_env) list \<Rightarrow> outcome \<times> string option list \<times> event list" where
  "poll_gpu count turns = poll_loop turns (replicate count None)"

subsection \<open>Command handlers\<close>

text \<open>
  What a handler reads from an incoming command: the sender's id and user name (which
  Telegram may leave unset) and \<open>context.args\<close>.
\<close>

record update =
  user_id :: int
  username :: "string option"
  args :: "string list"

text \<open>
  What a handler finds outside: the device count, the free bytes that
  \<open>nvmlDeviceGetMemoryInfo\<close> reports for a device id, and the answer of
  \<open>cuda.device_array\<close> to the attempt of a given number for a device and a size
  (\<open>None\<close> when the array is returned, the exception otherwise).
\<close>

record gpu_env =
  nvmlDeviceGetCount :: nat
  free_bytes :: "int \<Rightarrow> int"
  device_array :: "nat \<Rightarrow> int \<Rightarrow> int \<Rightarrow> py_error option"

text \<open>\<open>print\<close> renders an unset user name as \<open>None\<close>.\<close>

definition py_str :: "string option \<Rightarrow> string" where
  "py_str name = (case name of None \<Rightarrow> ''None'' | Some n \<Rightarrow> n)"

definition not_whitelisted :: "int \<Rightarrow> string" where
  "not_whitelisted uid =
     ''You are not yet on the whitelist. ''
     @ ''Add '' @ string_of_int uid @ '' to your config to receive notifications from me''"

definition invalid_gpu_id :: "gpu_env \<Rightarrow> string" where
  "invalid_gpu_id env =
     ''Invalid GPU ID. Must be between 0 and '' @ string_of_int (int (nvmlDeviceGetCount env) - 1)"

text \<open>
  The replacement field \<open>{x:f.1}\<close> of the two f-strings of \<open>_occupy\<close>. A format
  specification is \<open>[[fill]align][sign][z][#][0][width][grouping][.precision][type]\<close>;
  in \<open>f.1\<close> the type \<open>f\<close> is followed by more text, so \<open>float.__format__\<close> raises
  \<open>ValueError\<close> (invalid format specifier) whatever the number is.
\<close>

definition format_f_dot_1 :: "rat \<Rightarrow> py_error + string" where
  "format_f_dot_1 x = Inl ValueError"

text \<open>
  The loop \<open>for _ in range(3)\<close> of \<open>_occupy\<close>, over the numbers of the attempts that are
  left. An exception raised while the reply text is built leaves the handler; by then a
  successful attempt has stored its array.
\<close>

fun occupy_loop :: "gpu_env \<Rightarrow> int \<Rightarrow> nat list \<Rightarrow> int \<Rightarrow> bot \<Rightarrow> outcome \<times> bot \<times> event list" where
  "occupy_loop env gid [] to_alloc s = (Returned, s, [])"
| "occupy_loop env gid (i # attempts) to_alloc s =
     (case device_array env i gid to_alloc of
        None \<Rightarrow>
          (let s' = s\<lparr>cuda_buffers := (cuda_buffers s)(gid \<mapsto> DeviceArray to_alloc)\<rparr>
           in case format_f_dot_1 (of_int to_alloc / 1024 ^ 3) of
                Inl e \<Rightarrow> (Raised e, s', [Allocate gid to_alloc])
              | Inr gb \<Rightarrow>
                  (Returned, s',
                   [Allocate gid to_alloc,
                    Reply (''Allocated '' @ gb @ ''GB on GPU '' @ string_of_int gid)]))
      | Some e \<Rightarrow>
          if e = CudaAPIError then
            (case format_f_dot_1 (of_int to_alloc / 1024 ^ 3) of
               Inl e' \<Rightarrow> (Raised e', s, [Allocate gid to_alloc])
             | Inr gb \<Rightarrow>
                 (let (out, s', evs) =
                        occupy_loop env gid attempts (py_trunc (of_int to_alloc * (8 / 10))) s
                  in (out, s',
                      Allocate gid to_alloc
                      # Reply (''Could not allocate '' @ gb @ ''GB on GPU '' @ string_of_int gid
                               @ ''. Trying again with 80% of the memory'')
                      # evs)))
          else (Raised e, s, [Allocate gid to_alloc]))"

definition occupy :: "gpu_env \<Rightarrow> update \<Rightarrow> bot \<Rightarrow> outcome \<times> bot \<times> event list" where
  "occupy env u s =
     (if user_id u \<notin> set (whitelist s) then
        (Returned, s, [Reply (not_whitelisted (user_id u))])
      else
        let p = Printed (py_str (username u) @ '' tries to occupy some resources'')
        in if length (args u) \<noteq> 1 then
             (Returned, s, [p, Printed ''Invalid usage of /occ'', Reply ''Usage: /occ <gpu_id>''])
           else
             (case py_int (args u ! 0) of
                None \<Rightarrow> (Raised ValueError, s, [p])
              | Some gid \<Rightarrow>
                  if gid < 0 \<or> gid \<ge> int (nvmlDeviceGetCount env) then
                    (Returned, s, [p, Reply (invalid_gpu_id env)])
                  else
                    let to_alloc = py_trunc (of_int (free_bytes env gid) * (95 / 100));
                        (out, s', evs) = occupy_loop env gid [0..<3] to_alloc s
                    in (out, s', p # SelectDevice gid # evs)))"

definition rel_usage :: string where
  "rel_usage = ''Usage: /rel <gpu_id> to release <gpu_id> or simply /rel to release all''"

definition set_interval :: "update \<Rightarrow> bot \<Rightarrow> outcome \<times> bot \<times> event list" where
  "set_interval u s =
     (if user_id u \<notin> set (whitelist s) then
        (Returned, s, [Reply (not_whitelisted (user_id u))])
      else
        let p = Printed (py_str (username u) @ '' tries to set the interval'')
        in if length (args u) \<noteq> 1 then
             (Returned, s, [p, Printed ''Invalid usage of /rel'', Reply rel_usage])
           else
             (case py_int (args u ! 0) of
                None \<Rightarrow> (Raised ValueError, s, [p])
              | Some new_interval \<Rightarrow>
                  if new_interval < 1 \<or> new_interval > 60 * 60 then
                    (Returned, s, [p, Reply ''Interval must be between 1s and 3600s''])
                  else
                    (Returned, s\<lparr>interval := new_interval\<rparr>,
                     [p, Reply (''Interval set to '' @ string_of_int new_interval @ ''s'')])))"

text \<open>The loop over \<open>to_release\<close> of \<open>_release\<close>.\<close>

fun release_loop :: "int list \<Rightarrow> bot \<Rightarrow> bot \<times> event list" where
  "release_loop [] s = (s, [])"
| "release_loop (gid # to_release) s =
     (case cuda_buffers s gid of
        None \<Rightarrow>
          (let (s', evs) = release_loop to_release s
           in (s', Reply (''GPU '' @ string_of_int gid @ '' is not occupied'') # evs))
      | Some _ \<Rightarrow>
          (let (s', evs) = release_loop to_release (s\<lparr>cuda_buffers := (cuda_buffers s)(gid := None)\<rparr>)
           in (s', SelectDevice gid # ResetDevice gid
                   # Reply (''Released GPU '' @ string_of_int gid) # evs)))"

definition release :: "gpu_env \<Rightarrow> update \<Rightarrow> bot \<Rightarrow> outcome \<times> bot \<times> event list" where
  "release env u s =
     (if user_id u \<notin> set (whitelist s) then
        (Returned, s, [Reply (not_whitelisted (user_id u))])
      else
        let p = Printed (py_str (username u) @ '' tries to release some resources'')
        in if length (args u) > 1 then
             (Returned, s, [p, Printed ''Invalid usage of /rel'', Reply rel_usage])
           else if length (args u) = 0 then
             (let (s', evs) = release_loop (map int [0..<nvmlDeviceGetCount env]) s
              in (Returned, s', p # evs))
           else
             (case py_int (args u ! 0) of
                None \<Rightarrow> (Raised ValueError, s, [p])
              | Some gid \<Rightarrow>
                  let invalid =
                        (if gid < 0 \<or> gid \<ge> int (nvmlDeviceGetCount env)
                         then [Reply (invalid_gpu_id env)] else []);
                      (s', evs) = release_loop [gid] s
                  in (Returned, s', p # invalid @ evs)))"

text \<open>
  The states the bot can be in while the machine has \<open>n\<close> devices: the one \<open>__init__\<close>
  builds, and any state a handler leaves behind, whether it returned or raised (the
  dispatcher of the library logs a handler's exception and serves the next command).
\<close>

inductive reachable :: "nat \<Rightarrow> int list \<Rightarrow> bot \<Rightarrow> bool" for n :: nat and wl :: "int list" where
  init: "reachable n wl (init_bot wl)"
| occ: "reachable n wl s \<Longrightarrow> nvmlDeviceGetCount env = n \<Longrightarrow> occupy env u s = (out, s', evs)
        \<Longrightarrow> reachable n wl s'"
| rel: "reachable n wl s \<Longrightarrow> nvmlDeviceGetCount env = n \<Longrightarrow> release env u s = (out, s', evs)
        \<Longrightarrow> reachable n wl s'"
| set_int: "reachable n wl s \<Longrightarrow> set_interval u s = (out, s', evs) \<Longrightarrow> reachable n wl s'"

subsection \<open>Reading the events\<close>

text \<open>
  The deliveries attempted (recipient, text, whether with \<open>parse_mode\<close>) and the texts
  replied to the requester, in order.
\<close>

fun sent :: "event list \<Rightarrow> (int \<times> string \<times> bool) list" where
  "sent [] = []"
| "sent (SendMessage chat_id msg markdown # evs) = (chat_id, msg, markdown) # sent evs"
| "sent (_ # evs) = sent evs"

fun replies :: "event list \<Rightarrow> string list" where
  "replies [] = []"
| "replies (Reply text # evs) = text # replies evs"
| "replies (_ # evs) = replies evs"

fun allocations :: "event list \<Rightarrow> (int \<times> int) list" where
  "allocations [] = []"
| "allocations (Allocate gid nbytes # evs) = (gid, nbytes) # allocations evs"
| "allocations (_ # evs) = allocations evs"

subsection \<open>Example inputs\<close>

text \<open>
  A device with nothing on it, a device whose memory query raises, a transport that
  delivers everything, one that is down for a single recipient, and a turn of the poll
  loop built from them. A machine with two devices of 1000 free bytes each, once with an
  allocator that always succeeds and once with one that fails the first two attempts of a
  command and succeeds on the third. A command of user 7, who is called bob.
\<close>

definition h_idle :: handle where
  "h_idle = \<lparr>nvmlDeviceGetMemoryInfo =
               Inr \<lparr>total_mem = 16 * 2 ^ 30, free_mem = 16 * 2 ^ 30, used_mem = 0\<rparr>,
             get_user_info = Inr []\<rparr>"

definition h_broken :: handle where
  "h_broken = \<lparr>nvmlDeviceGetMemoryInfo = Inl NVMLError, get_user_info = Inr []\<rparr>"

definition delivers :: "int \<Rightarrow> string \<Rightarrow> bool \<Rightarrow> py_error option" where
  "delivers chat_id msg markdown = None"

definition down_for :: "int \<Rightarrow> int \<Rightarrow> string \<Rightarrow> bool \<Rightarrow> py_error option" where
  "down_for c chat_id msg markdown = (if chat_id = c then Some NetworkError else None)"

definition turn :: "py_error + handle list \<Rightarrow> (int \<Rightarrow> string \<Rightarrow> bool \<Rightarrow> py_error option) \<Rightarrow> poll_env" where
  "turn hs send = \<lparr>now = ''T'', handles = hs, format_exc = (\<lambda>e. ''err''), send_message = send\<rparr>"

definition e_ok :: gpu_env where
  "e_ok = \<lparr>nvmlDeviceGetCount = 2, free_bytes = (\<lambda>gid. 1000),
           device_array = (\<lambda>i gid nbytes. None)\<rparr>"

definition e_third :: gpu_env where
  "e_third = \<lparr>nvmlDeviceGetCount = 2, free_bytes = (\<lambda>gid. 1000),
              device_array = (\<lambda>i gid nbytes. if i < 2 then Some CudaAPIError else None)\<rparr>"

definition bob :: "string list \<Rightarrow> update" where
  "bob as = \<lparr>user_id = 7, username = Some ''bob'', args = as\<rparr>"

section \<open>Properties\<close>

subsection \<open>Rendering numbers\<close>

lemma string_of_nat_digits:
  "string_of_nat 0 = ''0''" "string_of_nat 1 = ''1''" "string_of_nat 2 = ''2''"
  "string_of_nat 3 = ''3''" "string_of_nat 4 = ''4''" "string_of_nat 5 = ''5''"
  "string_of_nat 6 = ''6''" "string_of_nat 7 = ''7''" "string_of_nat 8 = ''8''"
  "string_of_nat 9 = ''9''"
  by code_simp+

lemma string_of_int_digits:
  "string_of_int 0 = ''0''" "string_of_int 1 = ''1''" "string_of_int 2 = ''2''"
  "string_of_int 3 = ''3''" "string_of_int 4 = ''4''" "string_of_int 5 = ''5''"
  "string_of_int 6 = ''6''" "string_of_int 7 = ''7''" "string_of_int 8 = ''8''"
  "string_of_int 9 = ''9''" "string_of_int (- 1) = ''-1''"
  by code_simp+

subsection \<open>Occupancy threshold\<close>

lemma is_occupied_available: "\<not> is_occupied available_label"
  by (simp add: is_occupied_def available_label_def rocket_def clown_def)

lemma is_occupied_occupied: "is_occupied (occupied_label users)"
  by (simp add: is_occupied_def occupied_label_def clown_def)

lemma used_gb_threshold: "((of_int u :: rat) / 1024 ^ 3 > 1) = (u > 2 ^ 30)"
proof -
  have "(1024::rat) ^ 3 = of_int (2 ^ 30)" by simp
  then have "((of_int u :: rat) / 1024 ^ 3 > 1) = (of_int (2 ^ 30) < (of_int u :: rat))"
    by (simp add: field_simps)
  also have "\<dots> = (u > 2 ^ 30)" by (simp only: of_int_less_iff)
  finally show ?thesis .
qed

text \<open>
  C3. For a device whose memory query answers, the label computed by \<open>_query_once\<close> is
  the AVAILABLE one when at most \<open>2 ^ 30\<close> bytes are used, and the OCCUPIED one (over the
  decorated user names, whatever the process list holds, the empty list included) when
  more are used; a computed label is an OCCUPIED one exactly when the used memory is
  strictly above \<open>2 ^ 30\<close> bytes. Above the threshold no label is computed when the process
  query raises.
\<close>

theorem occupied_iff_above_threshold:
  assumes "nvmlDeviceGetMemoryInfo h = Inr info"
  shows "(used_mem info \<le> 2 ^ 30 \<longrightarrow> device_state h = Inr available_label)
       \<and> (used_mem info > 2 ^ 30 \<longrightarrow>
            (case get_user_info h of
               Inl e \<Rightarrow> device_state h = Inl e
             | Inr infos \<Rightarrow>
                 device_state h = Inr (occupied_label (map (\<lambda>info. decorate (fst info)) infos))))
       \<and> (\<forall>st. device_state h = Inr st \<longrightarrow> (is_occupied st \<longleftrightarrow> used_mem info > 2 ^ 30))"
  using assms
  by (auto simp: device_state_def used_gb_threshold is_occupied_available is_occupied_occupied
           split: sum.splits)

text \<open>
  At exactly \<open>2 ^ 30\<close> used bytes with a process listed the label is AVAILABLE; at
  \<open>2 ^ 30 + 1\<close> bytes with no process listed it is OCCUPIED.
\<close>

theorem occupied_iff_above_threshold_witness:
  "device_state
     \<lparr>nvmlDeviceGetMemoryInfo = Inr \<lparr>total_mem = 16 * 2 ^ 30, free_mem = 15 * 2 ^ 30, used_mem = 2 ^ 30\<rparr>,
      get_user_info = Inr [(''alice'', ''train.py'')]\<rparr> = Inr available_label
   \<and> device_state
     \<lparr>nvmlDeviceGetMemoryInfo = Inr \<lparr>total_mem = 16 * 2 ^ 30, free_mem = 15 * 2 ^ 30, used_mem = 2 ^ 30 + 1\<rparr>,
      get_user_info = Inr []\<rparr> = Inr (occupied_label [])
   \<and> is_occupied (occupied_label []) \<and> \<not> is_occupied available_label"
  using occupied_iff_above_threshold
          [of "\<lparr>nvmlDeviceGetMemoryInfo = Inr \<lparr>total_mem = 16 * 2 ^ 30, free_mem = 15 * 2 ^ 30, used_mem = 2 ^ 30\<rparr>,
                get_user_info = Inr [(''alice'', ''train.py'')]\<rparr>"
              "\<lparr>total_mem = 16 * 2 ^ 30, free_mem = 15 * 2 ^ 30, used_mem = 2 ^ 30\<rparr>"]
        occupied_iff_above_threshold
          [of "\<lparr>nvmlDeviceGetMemoryInfo = Inr \<lparr>total_mem = 16 * 2 ^ 30, free_mem = 15 * 2 ^ 30, used_mem = 2 ^ 30 + 1\<rparr>,
                get_user_info = Inr []\<rparr>"
              "\<lparr>total_mem = 16 * 2 ^ 30, free_mem = 15 * 2 ^ 30, used_mem = 2 ^ 30 + 1\<rparr>"]
  by simp

subsection \<open>The loop over the whitelist\<close>

lemma broadcast_ok:
  "\<forall>c\<in>set wl. send c msg md = None \<or> send c msg md = Some Unauthorized \<Longrightarrow>
   fst (broadcast send md msg wl) = Returned
   \<and> sent (snd (broadcast send md msg wl)) = map (\<lambda>c. (c, msg, md)) wl"
  by (induction wl) (auto split: prod.splits option.splits)

lemma broadcast_delivered:
  "\<forall>c\<in>set wl. send c msg md = None \<or> send c msg md = Some Unauthorized \<Longrightarrow>
   c \<in> set wl \<Longrightarrow> SendMessage c msg md \<in> set (snd (broadcast send md msg wl))"
  by (induction wl) (auto split: prod.splits option.splits)

lemma broadcast_unauthorized_printed:
  "\<forall>c\<in>set wl. send c msg md = None \<or> send c msg md = Some Unauthorized \<Longrightarrow>
   c \<in> set wl \<Longrightarrow> send c msg md = Some Unauthorized \<Longrightarrow>
   Printed (''Unauthorized for '' @ string_of_int c) \<in> set (snd (broadcast send md msg wl))"
  by (induction wl) (auto split: prod.splits option.splits)

text \<open>
  C9. When every delivery of a broadcast either returns or raises the authorization
  error, the loop over the whitelist ends without an exception, it has attempted exactly
  one delivery per whitelist entry, in order, so every recipient whose delivery returns
  has received the message, and every refusal has been printed. This holds for both
  copies of the loop (with and without \<open>parse_mode\<close>).
\<close>

theorem broadcast_resilient:
  assumes "\<forall>c\<in>set wl. send c msg md = None \<or> send c msg md = Some Unauthorized"
  shows "fst (broadcast send md msg wl) = Returned
       \<and> sent (snd (broadcast send md msg wl)) = map (\<lambda>c. (c, msg, md)) wl
       \<and> (\<forall>c\<in>set wl. send c msg md = None \<longrightarrow>
             SendMessage c msg md \<in> set (snd (broadcast send md msg wl)))
       \<and> (\<forall>c\<in>set wl. send c msg md = Some Unauthorized \<longrightarrow>
             Printed (''Unauthorized for '' @ string_of_int c) \<in> set (snd (broadcast send md msg wl)))"
proof -
  note ok = broadcast_ok [where send = send and msg = msg and md = md and wl = wl, OF assms]
  have "SendMessage c msg md \<in> set (snd (broadcast send md msg wl))" if "c \<in> set wl" for c
    using broadcast_delivered [where send = send and msg = msg and md = md and wl = wl, OF assms that] .
  moreover have "Printed (''Unauthorized for '' @ string_of_int c) \<in> set (snd (broadcast send md msg wl))"
    if "c \<in> set wl" "send c msg md = Some Unauthorized" for c
    using broadcast_unauthorized_printed
            [where send = send and msg = msg and md = md and wl = wl, OF assms that] .
  ultimately show ?thesis using ok by blast
qed

text \<open>Three recipients, the second of which has blocked the bot.\<close>

theorem broadcast_resilient_witness:
  "broadcast (\<lambda>c msg md. if c = 2 then Some Unauthorized else None) True ''hi'' [1, 2, 3]
     = (Returned, [SendMessage 1 ''hi'' True, SendMessage 2 ''hi'' True,
                   Printed ''Unauthorized for 2'', SendMessage 3 ''hi'' True])
   \<and> sent (snd (broadcast (\<lambda>c msg md. if c = 2 then Some Unauthorized else None) True ''hi'' [1, 2, 3]))
     = [(1, ''hi'', True), (2, ''hi'', True), (3, ''hi'', True)]"
  using broadcast_resilient
          [of "[1, 2, 3]" "\<lambda>c msg md. if c = 2 then Some Unauthorized else None" "''hi''" True]
  by (simp add: string_of_int_digits)

subsection \<open>The poll loop\<close>

lemma states_same_iff:
  "(map Some new_states = old) =
   (length old = length new_states \<and> (\<forall>i < length new_states. old ! i = Some (new_states ! i)))"
  by (auto simp: list_eq_iff_nth_eq)

lemma sentinel_differs:
  "n \<noteq> 0 \<or> new_states \<noteq> [] \<Longrightarrow> map Some new_states \<noteq> replicate n None"
  by (cases new_states; cases n) auto

lemma poll_cycle_same:
  "handles env = Inr hs \<Longrightarrow> query_once (now env) hs = Inr (new_states, msg) \<Longrightarrow>
   map Some new_states = old \<Longrightarrow> poll_cycle s env old = (Returned, old, [Sleep (interval s)])"
  by (simp add: poll_cycle_def)

lemma poll_cycle_changed:
  "handles env = Inr hs \<Longrightarrow> query_once (now env) hs = Inr (new_states, msg) \<Longrightarrow>
   map Some new_states \<noteq> old \<Longrightarrow>
   fst (poll_cycle s env old) = fst (broadcast (send_message env) True msg (whitelist s))
   \<and> snd (snd (poll_cycle s env old))
       = Sleep (interval s) # snd (broadcast (send_message env) True msg (whitelist s))
   \<and> (fst (poll_cycle s env old) = Returned \<longrightarrow> fst (snd (poll_cycle s env old)) = map Some new_states)"
  by (auto simp: poll_cycle_def split: prod.splits outcome.splits)

lemma poll_cycle_failed:
  "handles env = Inr hs \<Longrightarrow> query_once (now env) hs = Inl e \<Longrightarrow>
   poll_cycle s env old =
     (fst (broadcast (send_message env) False (format_exc env e) (whitelist s)), old,
      Sleep (interval s) # Printed (format_exc env e)
        # snd (broadcast (send_message env) False (format_exc env e) (whitelist s)))"
  by (auto simp: poll_cycle_def Let_def split: prod.splits)

lemma poll_loop_continues:
  "fst (poll_cycle s env old) = Returned \<Longrightarrow>
   poll_loop ((s, env) # turns) old =
     (case poll_loop turns (fst (snd (poll_cycle s env old))) of
        (out, old', evs') \<Rightarrow> (out, old', snd (snd (poll_cycle s env old)) @ evs'))"
  by (cases "poll_cycle s env old") (auto split: prod.splits)

text \<open>
  C1, as the code has it. In a turn whose query succeeds, the new vector equals the
  previous one exactly when both have the same length and the same label at every index.
  If they are equal nothing is sent and the turn only sleeps. If they differ the loop over
  the whitelist is run once with the report; when every delivery returns or raises the
  authorization error, exactly one delivery per whitelist entry is attempted, the new
  vector is stored and the loop goes on. The initial vector of \<open>n\<close> times \<open>None\<close> differs
  from the computed one whenever \<open>n\<close> is not zero or a device was queried.
\<close>

theorem poll_broadcasts_on_change:
  assumes "handles env = Inr hs" and "query_once (now env) hs = Inr (new_states, msg)"
  shows "(map Some new_states = old \<longleftrightarrow>
            length old = length new_states \<and> (\<forall>i < length new_states. old ! i = Some (new_states ! i)))
       \<and> (map Some new_states = old \<longrightarrow> poll_cycle s env old = (Returned, old, [Sleep (interval s)]))
       \<and> (map Some new_states \<noteq> old \<longrightarrow>
            snd (snd (poll_cycle s env old))
              = Sleep (interval s) # snd (broadcast (send_message env) True msg (whitelist s))
            \<and> ((\<forall>c\<in>set (whitelist s). send_message env c msg True = None
                                       \<or> send_message env c msg True = Some Unauthorized) \<longrightarrow>
                 fst (poll_cycle s env old) = Returned
                 \<and> fst (snd (poll_cycle s env old)) = map Some new_states
                 \<and> sent (snd (snd (poll_cycle s env old))) = map (\<lambda>c. (c, msg, True)) (whitelist s)))
       \<and> (n \<noteq> 0 \<or> new_states \<noteq> [] \<longrightarrow> map Some new_states \<noteq> replicate n None)"
proof -
  have a: "map Some new_states = old \<longleftrightarrow>
            length old = length new_states \<and> (\<forall>i < length new_states. old ! i = Some (new_states ! i))"
    by (rule states_same_iff)
  have b: "map Some new_states = old \<longrightarrow> poll_cycle s env old = (Returned, old, [Sleep (interval s)])"
    using poll_cycle_same [OF assms] by blast
  have c: "map Some new_states \<noteq> old \<longrightarrow>
            snd (snd (poll_cycle s env old))
              = Sleep (interval s) # snd (broadcast (send_message env) True msg (whitelist s))
            \<and> ((\<forall>c\<in>set (whitelist s). send_message env c msg True = None
                                       \<or> send_message env c msg True = Some Unauthorized) \<longrightarrow>
                 fst (poll_cycle s env old) = Returned
                 \<and> fst (snd (poll_cycle s env old)) = map Some new_states
                 \<and> sent (snd (snd (poll_cycle s env old))) = map (\<lambda>c. (c, msg, True)) (whitelist s))"
  proof (intro impI conjI)
    assume d: "map Some new_states \<noteq> old"
    note ch = poll_cycle_changed [OF assms d, of s]
    show "snd (snd (poll_cycle s env old))
              = Sleep (interval s) # snd (broadcast (send_message env) True msg (whitelist s))"
      using ch by blast
    assume ok: "\<forall>c\<in>set (whitelist s). send_message env c msg True = None
                                       \<or> send_message env c msg True = Some Unauthorized"
    note bo = broadcast_ok [where send = "send_message env" and msg = msg and md = True
                              and wl = "whitelist s", OF ok]
    show r: "fst (poll_cycle s env old) = Returned" using ch bo by simp
    show "fst (snd (poll_cycle s env old)) = map Some new_states" using ch r by blast
    show "sent (snd (snd (poll_cycle s env old))) = map (\<lambda>c. (c, msg, True)) (whitelist s)"
      using ch bo by simp
  qed
  have d: "n \<noteq> 0 \<or> new_states \<noteq> [] \<longrightarrow> map Some new_states \<noteq> replicate n None"
    using sentinel_differs by blast
  show ?thesis using a b c d by blast
qed

text \<open>
  The first turn on a machine with one idle device and two subscribers: the report goes
  to both and the vector is stored. A second turn that finds the same state sends nothing.
\<close>

theorem poll_broadcasts_on_change_witness:
  "handles (turn (Inr [h_idle]) delivers) = Inr [h_idle]
   \<and> query_once (now (turn (Inr [h_idle]) delivers)) [h_idle]
       = Inr ([available_label], ''# New GPU Status at T'' @ [CHR 0x0A] @ bullets 0 [available_label])
   \<and> fst (poll_cycle (init_bot [7, 8]) (turn (Inr [h_idle]) delivers) (replicate 1 None)) = Returned
   \<and> fst (snd (poll_cycle (init_bot [7, 8]) (turn (Inr [h_idle]) delivers) (replicate 1 None)))
       = [Some available_label]
   \<and> map fst (sent (snd (snd (poll_cycle (init_bot [7, 8]) (turn (Inr [h_idle]) delivers)
                                 (replicate 1 None))))) = [7, 8]
   \<and> poll_cycle (init_bot [7, 8]) (turn (Inr [h_idle]) delivers) [Some available_label]
       = (Returned, [Some available_label], [Sleep 5])"
  using poll_broadcasts_on_change
          [of "turn (Inr [h_idle]) delivers" "[h_idle]" "[available_label]"
              "''# New GPU Status at T'' @ [CHR 0x0A] @ bullets 0 [available_label]"
              "replicate 1 None" "init_bot [7, 8]" 1]
        poll_broadcasts_on_change
          [of "turn (Inr [h_idle]) delivers" "[h_idle]" "[available_label]"
              "''# New GPU Status at T'' @ [CHR 0x0A] @ bullets 0 [available_label]"
              "[Some available_label]" "init_bot [7, 8]" 1]
  by (simp add: turn_def delivers_def h_idle_def query_once_def device_state_def init_bot_def)

text \<open>
  Where the claim fails as stated. On a machine that reports no device the initial vector
  and the computed one are both empty, so the first successful turn sends nothing. And
  when a delivery raises an error other than the authorization one, the loop over the
  whitelist is left: the second subscriber is never tried.
\<close>

theorem poll_first_turn_counterexample:
  "query_once ''T'' [] = Inr ([], ''# New GPU Status at T'' @ [CHR 0x0A])
   \<and> poll_gpu 0 [(init_bot [7], turn (Inr []) delivers)] = (Returned, [], [Sleep 5])
   \<and> fst (poll_gpu 1 [(init_bot [7, 8], turn (Inr [h_idle]) (down_for 7))]) = Raised NetworkError
   \<and> map fst (sent (snd (snd (poll_gpu 1 [(init_bot [7, 8], turn (Inr [h_idle]) (down_for 7))]))))
       = [7]"
  by (simp add: poll_gpu_def poll_cycle_def query_once_def init_bot_def turn_def delivers_def
        down_for_def h_idle_def device_state_def)

text \<open>
  C2, as the code has it. In a turn whose query raises, \<open>old_states\<close> is left as it was,
  the traceback is printed and the loop over the whitelist is run with it. When every
  delivery returns or raises the authorization error, exactly one delivery per whitelist
  entry is attempted and the loop goes on to the next turn with the same \<open>old_states\<close>.
\<close>

theorem poll_query_error:
  assumes "handles env = Inr hs" and "query_once (now env) hs = Inl e"
  shows "fst (snd (poll_cycle s env old)) = old
       \<and> snd (snd (poll_cycle s env old))
           = Sleep (interval s) # Printed (format_exc env e)
             # snd (broadcast (send_message env) False (format_exc env e) (whitelist s))
       \<and> ((\<forall>c\<in>set (whitelist s). send_message env c (format_exc env e) False = None
                                  \<or> send_message env c (format_exc env e) False = Some Unauthorized) \<longrightarrow>
            fst (poll_cycle s env old) = Returned
            \<and> sent (snd (snd (poll_cycle s env old)))
                = map (\<lambda>c. (c, format_exc env e, False)) (whitelist s)
            \<and> poll_loop ((s, env) # turns) old =
                (case poll_loop turns old of
                   (out, old', evs') \<Rightarrow> (out, old', snd (snd (poll_cycle s env old)) @ evs')))"
proof -
  note f = poll_cycle_failed [OF assms, of s old]
  have "fst (poll_cycle s env old) = Returned
            \<and> sent (snd (snd (poll_cycle s env old)))
                = map (\<lambda>c. (c, format_exc env e, False)) (whitelist s)
            \<and> poll_loop ((s, env) # turns) old =
                (case poll_loop turns old of
                   (out, old', evs') \<Rightarrow> (out, old', snd (snd (poll_cycle s env old)) @ evs'))"
    if ok: "\<forall>c\<in>set (whitelist s). send_message env c (format_exc env e) False = None
                                  \<or> send_message env c (format_exc env e) False = Some Unauthorized"
  proof -
    note bo = broadcast_ok [where send = "send_message env" and msg = "format_exc env e"
                              and md = False and wl = "whitelist s", OF ok]
    have r: "fst (poll_cycle s env old) = Returned" using f bo by simp
    moreover have "sent (snd (snd (poll_cycle s env old)))
                = map (\<lambda>c. (c, format_exc env e, False)) (whitelist s)" using f bo by simp
    moreover have "fst (snd (poll_cycle s env old)) = old" using f by simp
    ultimately show ?thesis using poll_loop_continues [OF r, of turns] by simp
  qed
  then show ?thesis using f by simp
qed

text \<open>A turn whose memory query raises, with two subscribers and a working transport.\<close>

theorem poll_query_error_witness:
  "handles (turn (Inr [h_broken]) delivers) = Inr [h_broken]
   \<and> query_once (now (turn (Inr [h_broken]) delivers)) [h_broken] = Inl NVMLError
   \<and> poll_cycle (init_bot [7, 8]) (turn (Inr [h_broken]) delivers) [Some ''x'']
       = (Returned, [Some ''x''],
          [Sleep 5, Printed ''err'', SendMessage 7 ''err'' False, SendMessage 8 ''err'' False])"
  using poll_query_error
          [of "turn (Inr [h_broken]) delivers" "[h_broken]" NVMLError "init_bot [7, 8]"
              "[Some ''x'']" "[]"]
  by (simp add: turn_def delivers_def h_broken_def query_once_def device_state_def init_bot_def
        poll_cycle_def Let_def)

text \<open>
  Where the claim fails as stated: the query raises and the transport is down for the
  first subscriber. The exception of \<open>send_message\<close> leaves the loop, and the second
  subscriber is never tried.
\<close>

theorem poll_query_error_counterexample:
  "query_once ''T'' [h_broken] = Inl NVMLError
   \<and> poll_loop [(init_bot [7, 8], turn (Inr [h_broken]) (down_for 7)),
                (init_bot [7, 8], turn (Inr [h_idle]) delivers)] [Some ''x'']
       = (Raised NetworkError, [Some ''x''],
          [Sleep 5, Printed ''err'', SendMessage 7 ''err'' False])"
  by (simp add: poll_cycle_def query_once_def init_bot_def turn_def down_for_def h_broken_def
        device_state_def Let_def)

subsection \<open>The usage bar\<close>

lemma filled_bar:
  "filled ([CHR 0x60, CHR ''|''] @ replicate a CHR ''#'' @ replicate b CHR '' '' @ [CHR ''|'', CHR 0x60]) = a"
  by (simp add: filled_def)

lemma pbar_filled_eq:
  "maximum \<noteq> 0 \<Longrightarrow>
   pbar_filled current maximum sz
     = Some (nat (py_round (of_int current / of_int maximum * of_int sz) + 1))"
  by (simp add: pbar_filled_def pbar_def Let_def filled_bar del: append.simps replicate.simps)

lemma py_round_of_int: "py_round (of_int k) = k"
  by (simp add: py_round_def)

lemma py_round_lower: "\<lfloor>x\<rfloor> \<le> py_round x"
  by (simp add: py_round_def Let_def)

lemma py_round_upper: "py_round x \<le> \<lfloor>x\<rfloor> + 1"
  by (simp add: py_round_def Let_def)

lemma py_round_mono:
  assumes "x \<le> y"
  shows "py_round x \<le> py_round y"
proof (cases "\<lfloor>x\<rfloor> = \<lfloor>y\<rfloor>")
  case True
  then show ?thesis using assms by (auto simp: py_round_def Let_def)
next
  case False
  then have "\<lfloor>x\<rfloor> < \<lfloor>y\<rfloor>" using assms floor_mono [of x y] by linarith
  then show ?thesis using py_round_upper [of x] py_round_lower [of y] by linarith
qed

lemma pbar_full_overflows:
  assumes "0 < maximum" and "0 \<le> sz"
  shows "pbar_filled maximum maximum sz = Some (nat sz + 1)"
proof -
  have "(of_int maximum :: rat) / of_int maximum * of_int sz = of_int sz" using assms by simp
  then show ?thesis using assms by (simp add: pbar_filled_eq py_round_of_int nat_add_distrib)
qed

lemma pbar_empty_one:
  assumes "maximum \<noteq> 0"
  shows "pbar_filled 0 maximum sz = Some 1"
  using assms py_round_of_int [of 0] by (simp add: pbar_filled_eq)

lemma pbar_filled_mono:
  assumes "0 < maximum" and "0 \<le> sz" and "used \<le> used'"
  shows "the (pbar_filled used maximum sz) \<le> the (pbar_filled used' maximum sz)"
proof -
  have "(of_int used :: rat) / of_int maximum * of_int sz \<le> of_int used' / of_int maximum * of_int sz"
    using assms by (simp add: divide_right_mono mult_right_mono)
  then show ?thesis using assms py_round_mono by (simp add: pbar_filled_eq nat_mono)
qed

lemma py_round_98_percent: "py_round (of_int 98 / of_int 100 * of_int 24) = 24"
  by code_simp

text \<open>
  C4. The bar is not clamped to its width. When \<open>current = maximum\<close> the quotient rounds
  to \<open>size\<close> and the first loop writes \<open>size + 1\<close> marks, one more than the width that the
  second loop pads to; the same happens from about 98 percent on. There the claimed count
  \<open>min(width, round(used / total * width) + 1)\<close> is the width, 24.
\<close>

theorem pbar_overflows_at_full:
  "pbar 24 24 24 = Inr ([CHR 0x60, CHR ''|''] @ replicate 25 CHR ''#'' @ [CHR ''|'', CHR 0x60])
   \<and> pbar_filled 24 24 24 = Some 25
   \<and> pbar_filled 98 100 24 = Some 25
   \<and> min 24 (py_round (of_int 24 / of_int 24 * of_int 24) + 1) = 24"
  using py_round_98_percent
  by (simp add: pbar_filled_eq) (simp add: pbar_def py_round_def)

subsection \<open>Command handlers\<close>

lemma occupy_loop_step:
  "occupy_loop env gid (i # attempts) t s =
     (case device_array env i gid t of
        None \<Rightarrow> (Raised ValueError, s\<lparr>cuda_buffers := (cuda_buffers s)(gid \<mapsto> DeviceArray t)\<rparr>, [Allocate gid t])
      | Some e \<Rightarrow> (Raised (if e = CudaAPIError then ValueError else e), s, [Allocate gid t]))"
  by (simp add: format_f_dot_1_def split: option.splits)

declare occupy_loop.simps(2) [simp del]

lemma occupy_loop_no_reply: "replies (snd (snd (occupy_loop env gid attempts t s))) = []"
  by (cases attempts) (auto simp: occupy_loop_step split: option.splits)

lemma occupy_loop_one_attempt: "length (allocations (snd (snd (occupy_loop env gid attempts t s)))) \<le> 1"
  by (cases attempts) (auto simp: occupy_loop_step split: option.splits)

lemma occupy_loop_buffers:
  "cuda_buffers (fst (snd (occupy_loop env gid attempts t s))) g = Some b \<Longrightarrow>
   g = gid \<or> cuda_buffers s g \<noteq> None"
  by (cases attempts) (auto simp: occupy_loop_step split: option.splits if_splits)

lemma occupy_loop_whitelist: "whitelist (fst (snd (occupy_loop env gid attempts t s))) = whitelist s"
  by (cases attempts) (auto simp: occupy_loop_step split: option.splits)

lemma occupy_whitelist: "whitelist (fst (snd (occupy env u s))) = whitelist s"
proof -
  have "whitelist s' = whitelist s" if "occupy_loop env gid attempts t s = (out, s', evs)"
    for gid attempts t out s' evs
    using occupy_loop_whitelist [of env gid attempts t s] that by simp
  then show ?thesis
    by (auto simp: occupy_def Let_def split: option.splits prod.splits)
qed

lemma py_int_examples: "py_int ''0'' = Some 0" "py_int ''5'' = Some 5" "py_int ''abc'' = None"
  by code_simp+

declare py_int.simps [simp del]

text \<open>
  C5. A whitelisted user asks for device 0, which has 1000 bytes free. With an allocator
  that succeeds, the array of 950 bytes is stored and the handler then raises
  \<open>ValueError\<close> while it builds the reply: no reply is sent. With an allocator that fails
  the first two attempts and would succeed on the third, the handler raises in the same
  way while it builds the text of the first failure: the only attempt is the one for 950
  bytes, nothing is stored and no reply is sent.
\<close>

theorem occupy_raises_on_reply:
  "fst (occupy e_ok (bob [''0'']) (init_bot [7])) = Raised ValueError
   \<and> cuda_buffers (fst (snd (occupy e_ok (bob [''0'']) (init_bot [7])))) 0 = Some (DeviceArray 950)
   \<and> snd (snd (occupy e_ok (bob [''0'']) (init_bot [7])))
       = [Printed ''bob tries to occupy some resources'', SelectDevice 0, Allocate 0 950]
   \<and> occupy e_third (bob [''0'']) (init_bot [7])
       = (Raised ValueError, init_bot [7],
          [Printed ''bob tries to occupy some resources'', SelectDevice 0, Allocate 0 950])"
  by (simp add: occupy_def bob_def init_bot_def e_ok_def e_third_def py_int_examples py_str_def
        Let_def upt_rec [of 0] occupy_loop_step py_trunc_def)

text \<open>
  C8. A whitelisted user sends a token that is not a number. \<open>int\<close> raises \<open>ValueError\<close>
  in each of the three handlers; the exception leaves the handler and no reply is sent.
\<close>

theorem handlers_raise_on_non_numeric:
  "occupy e_ok (bob [''abc'']) (init_bot [7])
     = (Raised ValueError, init_bot [7], [Printed ''bob tries to occupy some resources''])
   \<and> set_interval (bob [''abc'']) (init_bot [7])
     = (Raised ValueError, init_bot [7], [Printed ''bob tries to set the interval''])
   \<and> release e_ok (bob [''abc'']) (init_bot [7])
     = (Raised ValueError, init_bot [7], [Printed ''bob tries to release some resources''])"
  by (simp add: occupy_def set_interval_def release_def bob_def init_bot_def py_int_examples
        py_str_def)

text \<open>
  C7. For a sender who is not on the whitelist, \<open>_occupy\<close> replies with the rejection that
  names the sender's id and returns; the bot is unchanged and nothing else happens.
\<close>

theorem occupy_rejects_stranger:
  assumes "user_id u \<notin> set (whitelist s)"
  shows "occupy env u s = (Returned, s,
     [Reply (''You are not yet on the whitelist. Add '' @ string_of_int (user_id u)
             @ '' to your config to receive notifications from me'')])"
  using assms by (simp add: occupy_def not_whitelisted_def)

text \<open>User 7 against the whitelist 1, 2.\<close>

theorem occupy_rejects_stranger_witness:
  "7 \<notin> set (whitelist (init_bot [1, 2]))
   \<and> occupy e_ok (bob [''0'']) (init_bot [1, 2])
       = (Returned, init_bot [1, 2],
          [Reply ''You are not yet on the whitelist. Add 7 to your config to receive notifications from me''])"
  using occupy_rejects_stranger [of "bob [''0'']" "init_bot [1, 2]" e_ok]
  by (simp add: bob_def init_bot_def string_of_int_digits)

lemma release_loop_whitelist: "whitelist (fst (release_loop gs s)) = whitelist s"
  by (induction gs arbitrary: s) (simp_all add: case_prod_beta split: option.splits)

lemma release_loop_buffers:
  "cuda_buffers (fst (release_loop gs s)) g = (if g \<in> set gs then None else cuda_buffers s g)"
  by (induction gs arbitrary: s) (auto simp: case_prod_beta split: option.splits)

lemma release_whitelist: "whitelist (fst (snd (release env u s))) = whitelist s"
proof -
  have "whitelist s' = whitelist s" if "release_loop gs s = (s', evs)" for gs s' evs
    using release_loop_whitelist [of gs s] that by simp
  then show ?thesis
    by (auto simp: release_def Let_def split: option.splits prod.splits)
qed

lemma set_interval_frame:
  "whitelist (fst (snd (set_interval u s))) = whitelist s"
  "cuda_buffers (fst (snd (set_interval u s))) = cuda_buffers s"
  by (auto simp: set_interval_def Let_def split: option.splits)

lemma release_buffers_subset:
  "cuda_buffers (fst (snd (release env u s))) g \<noteq> None \<Longrightarrow> cuda_buffers s g \<noteq> None"
proof -
  have "cuda_buffers s g \<noteq> None" if "release_loop gs s = (s', evs)" "cuda_buffers s' g \<noteq> None" for gs s' evs
    using release_loop_buffers [of gs s g] that by (auto split: if_splits)
  then show "cuda_buffers (fst (snd (release env u s))) g \<noteq> None \<Longrightarrow> cuda_buffers s g \<noteq> None"
    by (auto simp: release_def Let_def split: option.splits prod.splits if_splits)
qed

lemma occupy_buffers_in_range:
  assumes "cuda_buffers (fst (snd (occupy env u s))) g \<noteq> None"
  shows "cuda_buffers s g \<noteq> None \<or> (0 \<le> g \<and> g < int (nvmlDeviceGetCount env))"
  using assms
  by (auto simp: occupy_def Let_def case_prod_beta split: option.splits if_splits
           dest: occupy_loop_buffers)

lemma reachable_invariant:
  "reachable n wl s \<Longrightarrow> whitelist s = wl \<and> (\<forall>g. cuda_buffers s g \<noteq> None \<longrightarrow> 0 \<le> g \<and> g < int n)"
proof (induction rule: reachable.induct)
  case init
  then show ?case by (simp add: init_bot_def)
next
  case (occ s env u out s' evs)
  then show ?case
    using occupy_whitelist [of env u s] occupy_buffers_in_range [of env u s] by fastforce
next
  case (rel s env u out s' evs)
  then show ?case
    using release_whitelist [of env u s] release_buffers_subset [of env u s] by fastforce
next
  case (set_int s u out s' evs)
  then show ?case
    using set_interval_frame [of u s] by fastforce
qed


lemma drop_absent:
  assumes "cuda_buffers s gid = None"
  shows "s\<lparr>cuda_buffers := (cuda_buffers s)(gid := None)\<rparr> = s"
proof -
  have "(cuda_buffers s)(gid := None) = cuda_buffers s"
    using assms by (metis fun_upd_triv)
  then show ?thesis by simp
qed

lemma release_single:
  assumes "user_id u \<in> set (whitelist s)" and "args u = [a]" and "py_int a = Some gid"
  shows "release env u s =
     (Returned,
      s\<lparr>cuda_buffers := (cuda_buffers s)(gid := None)\<rparr>,
      Printed (py_str (username u) @ '' tries to release some resources'')
      # (if gid < 0 \<or> gid \<ge> int (nvmlDeviceGetCount env) then [Reply (invalid_gpu_id env)] else [])
      @ (case cuda_buffers s gid of
           None \<Rightarrow> [Reply (''GPU '' @ string_of_int gid @ '' is not occupied'')]
         | Some b \<Rightarrow> [SelectDevice gid, ResetDevice gid, Reply (''Released GPU '' @ string_of_int gid)]))"
proof (cases "cuda_buffers s gid")
  case None
  then have "s\<lparr>cuda_buffers := (cuda_buffers s)(gid := None)\<rparr> = s" by (rule drop_absent)
  with None show ?thesis using assms by (simp add: release_def Let_def)
next
  case (Some b)
  then show ?thesis using assms by (simp add: release_def Let_def)
qed

text \<open>
  C6. A whitelisted user releases a single device id. If nothing is held on it, the
  handler returns with the bot unchanged and the last reply says that the device is not
  occupied (after the reply about an invalid id, when the id is out of range). After an
  occupy and one release of that id, by the same user and whatever the two did, nothing
  is held on the id and a second release answers in the same way and changes nothing.
\<close>

theorem release_idempotent:
  assumes "user_id u \<in> set (whitelist s)" and "args u = [a]" and "py_int a = Some gid"
  shows "(cuda_buffers s gid = None \<longrightarrow>
            release env u s =
              (Returned, s,
               Printed (py_str (username u) @ '' tries to release some resources'')
               # (if gid < 0 \<or> gid \<ge> int (nvmlDeviceGetCount env) then [Reply (invalid_gpu_id env)] else [])
               @ [Reply (''GPU '' @ string_of_int gid @ '' is not occupied'')]))
       \<and> (let s1 = fst (snd (occupy env0 u s));
               s2 = fst (snd (release env1 u s1))
           in cuda_buffers s2 gid = None
              \<and> release env u s2 =
                  (Returned, s2,
                   Printed (py_str (username u) @ '' tries to release some resources'')
                   # (if gid < 0 \<or> gid \<ge> int (nvmlDeviceGetCount env) then [Reply (invalid_gpu_id env)] else [])
                   @ [Reply (''GPU '' @ string_of_int gid @ '' is not occupied'')]))"
proof -
  have first: "release env u s' =
              (Returned, s',
               Printed (py_str (username u) @ '' tries to release some resources'')
               # (if gid < 0 \<or> gid \<ge> int (nvmlDeviceGetCount env) then [Reply (invalid_gpu_id env)] else [])
               @ [Reply (''GPU '' @ string_of_int gid @ '' is not occupied'')])"
    if "user_id u \<in> set (whitelist s')" "cuda_buffers s' gid = None" for s'
  proof -
    have "s'\<lparr>cuda_buffers := (cuda_buffers s')(gid := None)\<rparr> = s'"
      using that(2) by (rule drop_absent)
    then show ?thesis using release_single [OF that(1) assms(2,3), of env] that(2) by simp
  qed
  define s1 where "s1 = fst (snd (occupy env0 u s))"
  define s2 where "s2 = fst (snd (release env1 u s1))"
  have w1: "user_id u \<in> set (whitelist s1)"
    using assms(1) occupy_whitelist [of env0 u s] by (simp add: s1_def)
  have w2: "user_id u \<in> set (whitelist s2)"
    using w1 release_whitelist [of env1 u s1] by (simp add: s2_def)
  have gone: "cuda_buffers s2 gid = None"
    using release_single [OF w1 assms(2,3), of env1] by (simp add: s2_def)
  show ?thesis
    using first [OF assms(1)] first [OF w2 gone] gone
    by (simp add: Let_def s1_def s2_def)
qed

text \<open>
  Device 0 of two: a release on the fresh bot; then an occupy, which stores an array, a
  release, which drops it, and a second release.
\<close>

theorem release_idempotent_witness:
  "release e_ok (bob [''0'']) (init_bot [7])
     = (Returned, init_bot [7],
        [Printed ''bob tries to release some resources'', Reply ''GPU 0 is not occupied''])
   \<and> cuda_buffers (fst (snd (occupy e_ok (bob [''0'']) (init_bot [7])))) 0 = Some (DeviceArray 950)
   \<and> replies (snd (snd (release e_ok (bob [''0'']) (fst (snd (occupy e_ok (bob [''0'']) (init_bot [7])))))))
       = [''Released GPU 0'']
   \<and> replies (snd (snd (release e_ok (bob [''0''])
         (fst (snd (release e_ok (bob [''0'']) (fst (snd (occupy e_ok (bob [''0'']) (init_bot [7]))))))))))
       = [''GPU 0 is not occupied'']
   \<and> cuda_buffers (fst (snd (release e_ok (bob [''0''])
         (fst (snd (release e_ok (bob [''0'']) (fst (snd (occupy e_ok (bob [''0'']) (init_bot [7])))))))))) 0
       = None"
  using release_idempotent [of "bob [''0'']" "init_bot [7]" "''0''" 0 e_ok e_ok e_ok]
  by (simp add: occupy_def release_def bob_def init_bot_def e_ok_def py_int_examples py_str_def Let_def
      upt_rec [of 0] occupy_loop_step py_trunc_def string_of_int_digits)

text \<open>
  C10. In any state the bot can reach on a machine with a fixed number of devices, when a
  whitelisted user releases a single id outside the range, the handler replies that the
  id is invalid and goes on: it also replies that the device is not occupied, and returns
  with the bot unchanged. \<open>_occupy\<close> on the same input stops after the first reply.
\<close>

theorem release_out_of_range_continues:
  assumes "reachable (nvmlDeviceGetCount env) wl s"
    and "user_id u \<in> set wl" and "args u = [a]" and "py_int a = Some gid"
    and "gid < 0 \<or> gid \<ge> int (nvmlDeviceGetCount env)"
  shows "release env u s =
           (Returned, s,
            [Printed (py_str (username u) @ '' tries to release some resources''),
             Reply (''Invalid GPU ID. Must be between 0 and ''
                    @ string_of_int (int (nvmlDeviceGetCount env) - 1)),
             Reply (''GPU '' @ string_of_int gid @ '' is not occupied'')])
       \<and> occupy env u s =
           (Returned, s,
            [Printed (py_str (username u) @ '' tries to occupy some resources''),
             Reply (''Invalid GPU ID. Must be between 0 and ''
                    @ string_of_int (int (nvmlDeviceGetCount env) - 1))])"
proof -
  note inv = reachable_invariant [OF assms(1)]
  have w: "user_id u \<in> set (whitelist s)" using inv assms(2) by simp
  have free: "cuda_buffers s gid = None"
  proof (rule ccontr)
    assume "cuda_buffers s gid \<noteq> None"
    then have "0 \<le> gid \<and> gid < int (nvmlDeviceGetCount env)" using inv by blast
    with assms(5) show False by linarith
  qed
  then have same: "s\<lparr>cuda_buffers := (cuda_buffers s)(gid := None)\<rparr> = s"
    by (rule drop_absent)
  have "release env u s =
           (Returned, s,
            [Printed (py_str (username u) @ '' tries to release some resources''),
             Reply (''Invalid GPU ID. Must be between 0 and ''
                    @ string_of_int (int (nvmlDeviceGetCount env) - 1)),
             Reply (''GPU '' @ string_of_int gid @ '' is not occupied'')])"
    using release_single [OF w assms(3,4), of env] assms(5) free same
    by (auto simp: invalid_gpu_id_def)
  moreover have "occupy env u s =
           (Returned, s,
            [Printed (py_str (username u) @ '' tries to occupy some resources''),
             Reply (''Invalid GPU ID. Must be between 0 and ''
                    @ string_of_int (int (nvmlDeviceGetCount env) - 1))])"
    using w assms(3,4,5) by (auto simp: occupy_def Let_def invalid_gpu_id_def)
  ultimately show ?thesis by blast
qed

text \<open>Id 5 on a machine with two devices.\<close>

theorem release_out_of_range_continues_witness:
  "reachable (nvmlDeviceGetCount e_ok) [7] (init_bot [7])
   \<and> py_int ''5'' = Some 5 \<and> 5 \<ge> int (nvmlDeviceGetCount e_ok)
   \<and> release e_ok (bob [''5'']) (init_bot [7]) =
       (Returned, init_bot [7],
        [Printed ''bob tries to release some resources'',
         Reply ''Invalid GPU ID. Must be between 0 and 1'',
         Reply ''GPU 5 is not occupied''])
   \<and> occupy e_ok (bob [''5'']) (init_bot [7]) =
       (Returned, init_bot [7],
        [Printed ''bob tries to occupy some resources'',
         Reply ''Invalid GPU ID. Must be between 0 and 1''])"
  using release_out_of_range_continues [of e_ok "[7]" "init_bot [7]" "bob [''5'']" "''5''" 5]
    reachable.init [of "nvmlDeviceGetCount e_ok" "[7]"]
  by (simp add: bob_def e_ok_def py_int_examples py_str_def string_of_int_digits)


end
